theory Spec2Isabelle
  imports Main "HOL-Library.AList" "HOL-Library.Sublist"
begin

section \<open>Values of the embedded program\<close>

text \<open>
  The module \<^verbatim>\<open>packages/ember-debug/lib/index.js\<close> keeps a mutable object
  \<^verbatim>\<open>debugFunctions\<close> from names to functions, installs the development
  implementations into it while the module is loaded, and exports one entry point
  per name that looks the current implementation up when it is called.

  JavaScript values are embedded as follows. Primitives are \<open>prim\<close>; numbers are
  integers (no NaN, no fractions). An object is the list of its own enumerable
  data properties in enumeration order, holding primitives; objects are values
  here (no identity). The names an object inherits from \<^verbatim>\<open>Object.prototype\<close>
  are given by the surroundings (\<open>Object_prototype\<close> below) and count for the
  \<^verbatim>\<open>in\<close> operator; the registry is read by its own properties. A function value is a term of \<open>fn\<close>: one constructor
  for every function expression of the module, with the variables a closure
  captures as arguments, and \<open>UserFn k\<close> for the k-th function of the embedding
  application, whose behaviour is a parameter (\<open>user\<close> below).
\<close>

datatype prim = Undefined | Null | Bool bool | Num int | Str string

datatype val = Prim prim | Obj "(string \<times> prim) list" | Fun fn
and fn =
    Noop string  \<comment> \<open>lines 18-22, 24, 25: \<^verbatim>\<open>assert() {}\<close>, \<^verbatim>\<open>info() {}\<close>, ...\<close>
  | deprecateFunc_initial  \<comment> \<open>line 23\<close>
  | assert_impl  \<comment> \<open>lines 61-65\<close>
  | debug_impl  \<comment> \<open>lines 81-83\<close>
  | info_impl  \<comment> \<open>lines 94-96\<close>
  | deprecateFunc_impl  \<comment> \<open>lines 117-131\<close>
  | deprecateFunc_wrapper3 val val val  \<comment> \<open>lines 120-123, capturing message, options, func\<close>
  | deprecateFunc_wrapper2 val val  \<comment> \<open>lines 126-129, capturing message, func\<close>
  | runInDebug_impl  \<comment> \<open>lines 155-157\<close>
  | debugSeal_impl  \<comment> \<open>lines 159-161\<close>
  | debugFreeze_impl  \<comment> \<open>lines 163-165\<close>
  | deprecate_handler  \<comment> \<open>\<^verbatim>\<open>_deprecate\<close>, imported from ./deprecate\<close>
  | warn_handler  \<comment> \<open>\<^verbatim>\<open>_warn\<close>, imported from ./warn\<close>
  | inspector_hint bool bool  \<comment> \<open>lines 214-226, capturing isChrome, isFirefox\<close>
  | assert | info | warn | debug | deprecate | deprecateFunc
  | runInDebug | debugSeal | debugFreeze  \<comment> \<open>the entry points, lines 251-285\<close>
  | UserFn nat

abbreviation undefined_val :: val where
  "undefined_val \<equiv> Prim Undefined"

text \<open>
  Modelled from the spec: \<^verbatim>\<open>./error\<close> (\<^verbatim>\<open>EmberError\<close>) is not among the
  sources; it is an exception value that carries the description string it was
  built with. \<open>TypeError\<close> is what the language raises when a value that is not a
  function is called or a property of \<^verbatim>\<open>undefined\<close> is read; \<open>Thrown\<close> is
  anything an application function throws.
\<close>

datatype exn = EmberError string | TypeError | Thrown val

fun exn_message :: "exn \<Rightarrow> string option" where
  "exn_message (EmberError m) = Some m"
| "exn_message TypeError = None"
| "exn_message (Thrown v) = None"

text \<open>
  What reaches the outside world. Modelled from the spec: \<^verbatim>\<open>ember-console\<close>
  (\<^verbatim>\<open>Logger\<close>) is not among the sources; its \<^verbatim>\<open>debug\<close> and
  \<^verbatim>\<open>info\<close> channels are the events \<open>Logger_debug\<close> and \<open>Logger_info\<close>.
  \<^verbatim>\<open>Object.seal\<close> and \<^verbatim>\<open>Object.freeze\<close> act on the identity of an
  object, which values here do not have, so the request is recorded.
\<close>

datatype event =
    Logger_debug string  \<comment> \<open>\<^verbatim>\<open>Logger.debug(line)\<close>\<close>
  | Logger_info "val list"  \<comment> \<open>\<^verbatim>\<open>Logger.info(...args)\<close>\<close>
  | Warning val val  \<comment> \<open>a warning raised with (message, options)\<close>
  | Deprecation val val  \<comment> \<open>a deprecation raised with (message, options)\<close>
  | Object_seal val  \<comment> \<open>\<^verbatim>\<open>Object.seal(obj)\<close>\<close>
  | Object_freeze val  \<comment> \<open>\<^verbatim>\<open>Object.freeze(obj)\<close>\<close>
  | Load_listener fn  \<comment> \<open>\<^verbatim>\<open>window.addEventListener('load', fn, false)\<close>\<close>

text \<open>
  The state the module reads and writes: the registry, the flag objects of
  \<^verbatim>\<open>ember/features\<close> (in a store, since \<^verbatim>\<open>FEATURES\<close> and
  \<^verbatim>\<open>DEFAULT_FEATURES\<close> may be one object), \<^verbatim>\<open>ENV\<close>, the testing switch, the
  browser environment, and the trace of what reached the outside world.
\<close>

record world =
  debugFunctions :: "string \<rightharpoonup> val"
  objects :: "nat \<Rightarrow> (string \<times> prim) list"
  ENV_ENABLE_OPTIONAL_FEATURES :: val
  ENV_FEATURES :: val
  isTesting :: bool
  isFirefox :: bool
  isChrome :: bool
  window_addEventListener :: bool
  extension_missing :: bool
  trace :: "event list"

type_synonym outcome = "(exn + val) \<times> world"

text \<open>
  What the module takes from its surroundings: the application's functions,
  which may do anything to the state, throw, or not return (\<open>None\<close>); the
  feature query \<^verbatim>\<open>isFeatureEnabled\<close> of \<^verbatim>\<open>./features\<close>; the addresses of
  the two flag objects; the source text a function value is printed as; the
  names found on \<^verbatim>\<open>Object.prototype\<close> and \<^verbatim>\<open>Function.prototype\<close>, and
  the own property names of a function object (\<^verbatim>\<open>length\<close>, \<^verbatim>\<open>name\<close>, ...).
\<close>

record host =
  user :: "nat \<Rightarrow> val \<Rightarrow> val list \<Rightarrow> world \<Rightarrow> outcome option"
  isFeatureEnabled :: "string \<Rightarrow> world \<Rightarrow> val"
  FEATURES_ref :: nat
  DEFAULT_FEATURES_ref :: nat
  fn_text :: "fn \<Rightarrow> string"
  Object_prototype :: "string list"
  Function_prototype :: "string list"
  fn_own_keys :: "fn \<Rightarrow> string list"

section \<open>Language primitives\<close>

fun truthy :: "val \<Rightarrow> bool" where
  "truthy (Prim Undefined) = False"
| "truthy (Prim Null) = False"
| "truthy (Prim (Bool b)) = b"
| "truthy (Prim (Num i)) = (i \<noteq> 0)"
| "truthy (Prim (Str s)) = (s \<noteq> [])"
| "truthy (Obj ps) = True"
| "truthy (Fun f) = True"

definition arg :: "val list \<Rightarrow> nat \<Rightarrow> val" where
  "arg args i = (if i < length args then args ! i else undefined_val)"

fun show_nat :: "nat \<Rightarrow> string" where
  "show_nat n = (if n < 10 then [''0123456789'' ! n]
                 else show_nat (n div 10) @ [''0123456789'' ! (n mod 10)])"

declare show_nat.simps [simp del]

definition show_int :: "int \<Rightarrow> string" where
  "show_int i = (if i < 0 then CHR ''-'' # show_nat (nat (- i)) else show_nat (nat i))"

text \<open>
  The string a template literal \<^verbatim>\<open>`${v}`\<close> substitutes for a value: a
  number in plain decimal (as the language prints integers below 10^21), an
  object by the inherited \<^verbatim>\<open>toString\<close>.
\<close>

fun ToString :: "host \<Rightarrow> val \<Rightarrow> string" where
  "ToString h (Prim Undefined) = ''undefined''"
| "ToString h (Prim Null) = ''null''"
| "ToString h (Prim (Bool b)) = (if b then ''true'' else ''false'')"
| "ToString h (Prim (Num i)) = show_int i"
| "ToString h (Prim (Str s)) = s"
| "ToString h (Obj ps) = ''[object Object]''"
| "ToString h (Fun f) = fn_text h f"

definition log_event :: "event \<Rightarrow> world \<Rightarrow> world" where
  "log_event e w = w\<lparr>trace := trace w @ [e]\<rparr>"

section \<open>The registry\<close>

text \<open>Lines 17-26.\<close>

definition debugFunctions_initial :: "string \<rightharpoonup> val" where
  "debugFunctions_initial =
     [''assert'' \<mapsto> Fun (Noop ''assert''),
      ''info'' \<mapsto> Fun (Noop ''info''),
      ''warn'' \<mapsto> Fun (Noop ''warn''),
      ''debug'' \<mapsto> Fun (Noop ''debug''),
      ''deprecate'' \<mapsto> Fun (Noop ''deprecate''),
      ''deprecateFunc'' \<mapsto> Fun deprecateFunc_initial,
      ''debugSeal'' \<mapsto> Fun (Noop ''debugSeal''),
      ''debugFreeze'' \<mapsto> Fun (Noop ''debugFreeze'')]"

text \<open>Lines 243-249. Reading a property the object does not have gives \<^verbatim>\<open>undefined\<close>.\<close>

definition getDebugFunction :: "string \<Rightarrow> world \<Rightarrow> val" where
  "getDebugFunction name w =
     (case debugFunctions w name of None \<Rightarrow> undefined_val | Some v \<Rightarrow> v)"

definition setDebugFunction :: "string \<Rightarrow> val \<Rightarrow> world \<Rightarrow> world" where
  "setDebugFunction name fn w = w\<lparr>debugFunctions := (debugFunctions w)(name \<mapsto> fn)\<rparr>"

section \<open>Calling a function value\<close>

text \<open>
  Modelled from the spec: \<^verbatim>\<open>./deprecate\<close> and \<^verbatim>\<open>./warn\<close> (\<^verbatim>\<open>_deprecate\<close>,
  \<^verbatim>\<open>_warn\<close>) are not among the sources. Each takes (message, test, options),
  raises its report when the test is falsy, hands it to the handler chain, and
  is not fatal: execution continues. The report is recorded in the trace.
\<close>

definition run_deprecate_handler :: "val list \<Rightarrow> world \<Rightarrow> outcome" where
  "run_deprecate_handler args w =
     (if truthy (arg args 1) then (Inr undefined_val, w)
      else (Inr undefined_val, log_event (Deprecation (arg args 0) (arg args 2)) w))"

definition run_warn_handler :: "val list \<Rightarrow> world \<Rightarrow> outcome" where
  "run_warn_handler args w =
     (if truthy (arg args 1) then (Inr undefined_val, w)
      else (Inr undefined_val, log_event (Warning (arg args 0) (arg args 2)) w))"

definition inspector_message :: "bool \<Rightarrow> bool \<Rightarrow> string" where
  "inspector_message chrome firefox =
     ''For more advanced debugging, install the Ember Inspector from '' @
     (if chrome then ''https://chrome.google.com/webstore/detail/ember-inspector/bmdblncegkenkacieihfhpjfppoconhi''
      else if firefox then ''https://addons.mozilla.org/en-US/firefox/addon/ember-inspector/''
      else ''undefined'')"

text \<open>
  \<open>call h n f this args w\<close> runs the function \<open>f\<close> with the given \<open>this\<close> and
  arguments in state \<open>w\<close>. Nothing in the module bounds how deep calls nest
  (a wrapper may be registered as the implementation it calls), so the depth is
  bounded by \<open>n\<close> and \<open>None\<close> stands for a call that does not return within it.
  \<open>Inl\<close> is an exception propagating to the caller.
\<close>

fun call :: "host \<Rightarrow> nat \<Rightarrow> fn \<Rightarrow> val \<Rightarrow> val list \<Rightarrow> world \<Rightarrow> outcome option" where
  "call h 0 f this args w = None"
| "call h (Suc n) (Noop name) this args w = Some (Inr undefined_val, w)"
| "call h (Suc n) deprecateFunc_initial this args w =
     Some (Inr (if args = [] then undefined_val else last args), w)"
| "call h (Suc n) assert_impl this args w =
     (if \<not> truthy (arg args 1)
      then Some (Inl (EmberError (''Assertion Failed: '' @ ToString h (arg args 0))), w)
      else Some (Inr undefined_val, w))"
| "call h (Suc n) debug_impl this args w =
     Some (Inr undefined_val, log_event (Logger_debug (''DEBUG: '' @ ToString h (arg args 0))) w)"
| "call h (Suc n) info_impl this args w =
     Some (Inr undefined_val, log_event (Logger_info args) w)"
| "call h (Suc n) deprecateFunc_impl this args w =
     (if length args = 3
      then Some (Inr (Fun (deprecateFunc_wrapper3 (args ! 0) (args ! 1) (args ! 2))), w)
      else Some (Inr (Fun (deprecateFunc_wrapper2 (arg args 0) (arg args 1))), w))"
| "call h (Suc n) (deprecateFunc_wrapper3 message options func) this args w =
     (case call h n deprecate undefined_val [message, Prim (Bool False), options] w of
        None \<Rightarrow> None
      | Some (Inl e, w') \<Rightarrow> Some (Inl e, w')
      | Some (Inr r, w') \<Rightarrow>
          (case func of Fun g \<Rightarrow> call h n g this args w'
           | _ \<Rightarrow> Some (Inl TypeError, w')))"
| "call h (Suc n) (deprecateFunc_wrapper2 message func) this args w =
     (case call h n deprecate undefined_val [message] w of
        None \<Rightarrow> None
      | Some (Inl e, w') \<Rightarrow> Some (Inl e, w')
      | Some (Inr r, w') \<Rightarrow>
          (case func of Fun g \<Rightarrow> call h n g this args w'
           | _ \<Rightarrow> Some (Inl TypeError, w')))"
| "call h (Suc n) runInDebug_impl this args w =
     (case arg args 0 of
        Fun g \<Rightarrow>
          (case call h n g undefined_val [] w of
             None \<Rightarrow> None
           | Some (Inl e, w') \<Rightarrow> Some (Inl e, w')
           | Some (Inr r, w') \<Rightarrow> Some (Inr undefined_val, w'))
      | _ \<Rightarrow> Some (Inl TypeError, w))"
| "call h (Suc n) debugSeal_impl this args w =
     Some (Inr undefined_val, log_event (Object_seal (arg args 0)) w)"
| "call h (Suc n) debugFreeze_impl this args w =
     Some (Inr undefined_val, log_event (Object_freeze (arg args 0)) w)"
| "call h (Suc n) deprecate_handler this args w = Some (run_deprecate_handler args w)"
| "call h (Suc n) warn_handler this args w = Some (run_warn_handler args w)"
| "call h (Suc n) (inspector_hint chrome firefox) this args w =
     (if extension_missing w
      then (case call h n debug undefined_val [Prim (Str (inspector_message chrome firefox))] w of
              None \<Rightarrow> None
            | Some (Inl e, w') \<Rightarrow> Some (Inl e, w')
            | Some (Inr r, w') \<Rightarrow> Some (Inr undefined_val, w'))
      else Some (Inr undefined_val, w))"
| "call h (Suc n) assert this args w =
     (case debugFunctions w ''assert'' of
        Some (Fun g) \<Rightarrow> call h n g undefined_val args w
      | _ \<Rightarrow> Some (Inl TypeError, w))"
| "call h (Suc n) info this args w =
     (case debugFunctions w ''info'' of
        Some (Fun g) \<Rightarrow> call h n g undefined_val args w
      | _ \<Rightarrow> Some (Inl TypeError, w))"
| "call h (Suc n) warn this args w =
     (case debugFunctions w ''warn'' of
        Some (Fun g) \<Rightarrow> call h n g undefined_val args w
      | _ \<Rightarrow> Some (Inl TypeError, w))"
| "call h (Suc n) debug this args w =
     (case debugFunctions w ''debug'' of
        Some (Fun g) \<Rightarrow> call h n g undefined_val args w
      | _ \<Rightarrow> Some (Inl TypeError, w))"
| "call h (Suc n) deprecate this args w =
     (case debugFunctions w ''deprecate'' of
        Some (Fun g) \<Rightarrow> call h n g undefined_val args w
      | _ \<Rightarrow> Some (Inl TypeError, w))"
| "call h (Suc n) deprecateFunc this args w =
     (case debugFunctions w ''deprecateFunc'' of
        Some (Fun g) \<Rightarrow> call h n g undefined_val args w
      | _ \<Rightarrow> Some (Inl TypeError, w))"
| "call h (Suc n) runInDebug this args w =
     (case debugFunctions w ''runInDebug'' of
        Some (Fun g) \<Rightarrow> call h n g undefined_val args w
      | _ \<Rightarrow> Some (Inl TypeError, w))"
| "call h (Suc n) debugSeal this args w =
     (case debugFunctions w ''debugSeal'' of
        Some (Fun g) \<Rightarrow> call h n g undefined_val args w
      | _ \<Rightarrow> Some (Inl TypeError, w))"
| "call h (Suc n) debugFreeze this args w =
     (case debugFunctions w ''debugFreeze'' of
        Some (Fun g) \<Rightarrow> call h n g undefined_val args w
      | _ \<Rightarrow> Some (Inl TypeError, w))"
| "call h (Suc n) (UserFn k) this args w = user h k this args w"

section \<open>The feature-flag check\<close>

text \<open>
  \<^verbatim>\<open>Object.keys(x)\<close>, \<^verbatim>\<open>x[key]\<close> and \<^verbatim>\<open>key in x\<close> (ECMAScript 2015) on
  the values of the model. A string has its indices as keys. \<^verbatim>\<open>Object.keys\<close>
  lists own enumerable properties only, and the built-in properties of a function
  are not enumerable; \<^verbatim>\<open>in\<close> walks the prototype chain: an object literal
  has its own properties and those of \<^verbatim>\<open>Object.prototype\<close>, a function its
  own, those of \<^verbatim>\<open>Function.prototype\<close> and those of \<^verbatim>\<open>Object.prototype\<close>;
  on a primitive \<^verbatim>\<open>in\<close> is a type error.
\<close>

fun Object_keys :: "val \<Rightarrow> exn + string list" where
  "Object_keys (Obj ps) = Inr (map fst ps)"
| "Object_keys (Prim Undefined) = Inl TypeError"
| "Object_keys (Prim Null) = Inl TypeError"
| "Object_keys (Prim (Str s)) = Inr (map show_nat [0..<length s])"
| "Object_keys (Prim (Bool b)) = Inr []"
| "Object_keys (Prim (Num i)) = Inr []"
| "Object_keys (Fun f) = Inr []"

fun get_property :: "val \<Rightarrow> string \<Rightarrow> exn + prim" where
  "get_property (Obj ps) key = Inr (case map_of ps key of None \<Rightarrow> Undefined | Some p \<Rightarrow> p)"
| "get_property (Prim Undefined) key = Inl TypeError"
| "get_property (Prim Null) key = Inl TypeError"
| "get_property (Prim (Str s)) key =
     Inr (case find (\<lambda>i. show_nat i = key) [0..<length s] of
            Some i \<Rightarrow> Str [s ! i]
          | None \<Rightarrow> if key = ''length'' then Num (int (length s)) else Undefined)"
| "get_property (Prim (Bool b)) key = Inr Undefined"
| "get_property (Prim (Num i)) key = Inr Undefined"
| "get_property (Fun f) key = Inr Undefined"

definition object_has :: "host \<Rightarrow> string \<Rightarrow> (string \<times> prim) list \<Rightarrow> bool" where
  "object_has h key ps \<longleftrightarrow> key \<in> set (map fst ps) \<or> key \<in> set (Object_prototype h)"

fun has_property :: "host \<Rightarrow> string \<Rightarrow> val \<Rightarrow> exn + bool" where
  "has_property h key (Obj ps) = Inr (object_has h key ps)"
| "has_property h key (Prim p) = Inl TypeError"
| "has_property h key (Fun f) =
     Inr (key \<in> set (fn_own_keys h f) \<or> key \<in> set (Function_prototype h) \<or>
          key \<in> set (Object_prototype h))"

definition stripped_options :: val where
  "stripped_options = Obj [(''id'', Str ''ember-debug.feature-flag-with-features-stripped'')]"

definition switch_message :: string where
  "switch_message = ''Ember.ENV.ENABLE_OPTIONAL_FEATURES is only available in canary builds.''"

definition flag_message :: "string \<Rightarrow> string" where
  "flag_message key = ''FEATURE['' @ [CHR 0x22] @ key @ [CHR 0x22] @
     ''] is set as enabled, but FEATURE flags are only available in canary builds.''"

text \<open>Lines 186-193: the loop over \<^verbatim>\<open>keys\<close>.\<close>

fun flag_loop :: "host \<Rightarrow> nat \<Rightarrow> val \<Rightarrow> val \<Rightarrow> string list \<Rightarrow> world \<Rightarrow> outcome option" where
  "flag_loop h n FEATURES knownFeatures [] w = Some (Inr undefined_val, w)"
| "flag_loop h n FEATURES knownFeatures (key # keys) w =
     (if key = ''isEnabled'' then flag_loop h n FEATURES knownFeatures keys w
      else case has_property h key knownFeatures of
        Inl e \<Rightarrow> Some (Inl e, w)
      | Inr False \<Rightarrow> flag_loop h n FEATURES knownFeatures keys w
      | Inr True \<Rightarrow>
          (case get_property FEATURES key of
             Inl e \<Rightarrow> Some (Inl e, w)
           | Inr v \<Rightarrow>
               (case call h n warn undefined_val
                       [Prim (Str (flag_message key)), Prim (Bool (\<not> truthy (Prim v))),
                        stripped_options] w of
                  None \<Rightarrow> None
                | Some (Inl e, w') \<Rightarrow> Some (Inl e, w')
                | Some (Inr r, w') \<Rightarrow> flag_loop h n FEATURES knownFeatures keys w')))"

text \<open>Lines 181-195, \<^verbatim>\<open>_warnIfUsingStrippedFeatureFlags\<close>.\<close>

definition warnIfUsingStrippedFeatureFlags ::
  "host \<Rightarrow> nat \<Rightarrow> val \<Rightarrow> val \<Rightarrow> val \<Rightarrow> world \<Rightarrow> outcome option" where
  "warnIfUsingStrippedFeatureFlags h n FEATURES knownFeatures featuresWereStripped w =
     (if truthy featuresWereStripped
      then (case call h n warn undefined_val
                   [Prim (Str switch_message),
                    Prim (Bool (\<not> truthy (ENV_ENABLE_OPTIONAL_FEATURES w))),
                    stripped_options] w of
              None \<Rightarrow> None
            | Some (Inl e, w') \<Rightarrow> Some (Inl e, w')
            | Some (Inr r, w') \<Rightarrow>
                (case Object_keys (if truthy FEATURES then FEATURES else Obj []) of
                   Inl e \<Rightarrow> Some (Inl e, w')
                 | Inr keys \<Rightarrow> flag_loop h n FEATURES knownFeatures keys w'))
      else Some (Inr undefined_val, w))"

section \<open>Loading the module\<close>

text \<open>Lines 61-169: the development implementations, in the order of the source.\<close>

definition development_implementations :: "(string \<times> fn) list" where
  "development_implementations =
     [(''assert'', assert_impl), (''debug'', debug_impl), (''info'', info_impl),
      (''deprecateFunc'', deprecateFunc_impl), (''runInDebug'', runInDebug_impl),
      (''debugSeal'', debugSeal_impl), (''debugFreeze'', debugFreeze_impl),
      (''deprecate'', deprecate_handler), (''warn'', warn_handler)]"

definition install :: "(string \<times> fn) list \<Rightarrow> world \<Rightarrow> world" where
  "install impls w = fold (\<lambda>(name, f). setDebugFunction name (Fun f)) impls w"

definition install_implementations :: "world \<Rightarrow> world" where
  "install_implementations w = install development_implementations w"

text \<open>Lines 199-206: the probe for stripped feature flags.\<close>

definition canary :: string where
  "canary = ''features-stripped-test''"

definition install_canary :: "host \<Rightarrow> world \<Rightarrow> world" where
  "install_canary h w =
     w\<lparr>objects := (objects w)
          (FEATURES_ref h := AList.update canary (Bool True) (objects w (FEATURES_ref h)))\<rparr>"

definition remove_canary :: "host \<Rightarrow> world \<Rightarrow> world" where
  "remove_canary h w =
     w\<lparr>objects := (objects w)
          (FEATURES_ref h := AList.delete canary (objects w (FEATURES_ref h)))\<rparr>"

definition features_stripped_probe :: "host \<Rightarrow> world \<Rightarrow> bool \<times> world" where
  "features_stripped_probe h w =
     (let w1 = install_canary h w;
          featuresWereStripped = (if truthy (isFeatureEnabled h canary w1) then False else True);
          w2 = remove_canary h w1
      in (featuresWereStripped, w2))"

text \<open>Lines 238-241.\<close>

definition runningNonEmberDebugJS :: bool where
  "runningNonEmberDebugJS = False"

definition nonEmberDebugJS_check :: "host \<Rightarrow> nat \<Rightarrow> world \<Rightarrow> outcome option" where
  "nonEmberDebugJS_check h n w =
     (if runningNonEmberDebugJS
      then call h n warn undefined_val
             [Prim (Str ''Please use `ember.debug.js` instead of `ember.js` for development and debugging.'')] w
      else Some (Inr undefined_val, w))"

text \<open>Lines 209-227: the hint about the Ember Inspector is left to the load event.\<close>

definition inspector_setup :: "world \<Rightarrow> world" where
  "inspector_setup w =
     (if window_addEventListener w \<and> (isFirefox w \<or> isChrome w)
      then log_event (Load_listener (inspector_hint (isChrome w) (isFirefox w))) w
      else w)"

text \<open>The module body, top to bottom.\<close>

definition module_init :: "host \<Rightarrow> nat \<Rightarrow> world \<Rightarrow> outcome option" where
  "module_init h n w0 =
     (let w = install_implementations (w0\<lparr>debugFunctions := debugFunctions_initial\<rparr>)
      in if \<not> isTesting w
         then (case features_stripped_probe h w of
                 (featuresWereStripped, w1) \<Rightarrow>
                   (case warnIfUsingStrippedFeatureFlags h n (ENV_FEATURES w1)
                           (Obj (objects w1 (DEFAULT_FEATURES_ref h)))
                           (Prim (Bool featuresWereStripped)) w1 of
                      None \<Rightarrow> None
                    | Some (Inl e, w2) \<Rightarrow> Some (Inl e, w2)
                    | Some (Inr r, w2) \<Rightarrow> nonEmberDebugJS_check h n (inspector_setup w2)))
         else nonEmberDebugJS_check h n w)"

section \<open>The registry as the specification words it\<close>

text \<open>
  The specification's \<^verbatim>\<open>invoke(name, ...args)\<close>: look the implementation
  registered for the name up, call it with all the arguments, return its result;
  with no function registered under the name the call fails loudly.
\<close>

definition invoke :: "host \<Rightarrow> nat \<Rightarrow> string \<Rightarrow> val list \<Rightarrow> world \<Rightarrow> outcome option" where
  "invoke h n name args w =
     (case getDebugFunction name w of
        Fun g \<Rightarrow> call h n g undefined_val args w
      | _ \<Rightarrow> Some (Inl TypeError, w))"

text \<open>The reports the feature-flag check raises.\<close>

definition switch_warning :: event where
  "switch_warning = Warning (Prim (Str switch_message)) stripped_options"

definition flag_warning :: "string \<Rightarrow> event" where
  "flag_warning key = Warning (Prim (Str (flag_message key))) stripped_options"

text \<open>
  The flags the specification has the check report: every key of the active
  flags that is a member of the known feature names (by \<^verbatim>\<open>in\<close>), the
  introspection key apart, whose value is truthy.
\<close>

definition reported_flags ::
  "host \<Rightarrow> (string \<times> prim) list \<Rightarrow> (string \<times> prim) list \<Rightarrow> string list" where
  "reported_flags h activeFlags knownFeatureNames =
     filter (\<lambda>key. key \<noteq> ''isEnabled'' \<and> object_has h key knownFeatureNames \<and>
                  (case map_of activeFlags key of None \<Rightarrow> False | Some v \<Rightarrow> truthy (Prim v)))
       (map fst activeFlags)"

section \<open>A concrete host and state\<close>

text \<open>
  An application whose functions record their arguments with \<^verbatim>\<open>Logger.info\<close>
  and return their \<^verbatim>\<open>this\<close>, in a build whose feature query is stripped to
  \<^verbatim>\<open>false\<close>.
\<close>

definition example_host :: host where
  "example_host =
     \<lparr>user = (\<lambda>k this args w. Some (Inr this, log_event (Logger_info args) w)),
      isFeatureEnabled = (\<lambda>name w. Prim (Bool False)),
      FEATURES_ref = 0, DEFAULT_FEATURES_ref = 0,
      fn_text = (\<lambda>f. ''function () { [code] }''),
      Object_prototype =
        [''constructor'', ''hasOwnProperty'', ''isPrototypeOf'', ''propertyIsEnumerable'',
         ''toLocaleString'', ''toString'', ''valueOf'', ''__proto__'',
         ''__defineGetter__'', ''__defineSetter__'', ''__lookupGetter__'', ''__lookupSetter__''],
      Function_prototype =
        [''apply'', ''bind'', ''call'', ''length'', ''name'', ''arguments'', ''caller''],
      fn_own_keys = (\<lambda>f. [''length'', ''name'', ''prototype''])\<rparr>"

definition example_world :: world where
  "example_world =
     \<lparr>debugFunctions = debugFunctions_initial,
      objects = (\<lambda>a. []),
      ENV_ENABLE_OPTIONAL_FEATURES = undefined_val,
      ENV_FEATURES = undefined_val,
      isTesting = False, isFirefox = False, isChrome = False,
      window_addEventListener = False, extension_missing = False,
      trace = []\<rparr>"

text \<open>The state once the development implementations are registered.\<close>

definition development_world :: world where
  "development_world = install_implementations example_world"

text \<open>A state in which application function 3 is registered under every name.\<close>

definition recording_world :: world where
  "recording_world = example_world\<lparr>debugFunctions := (\<lambda>name. Some (Fun (UserFn 3)))\<rparr>"

section \<open>Basic facts\<close>

lemma debugFunctions_log_event [simp]: "debugFunctions (log_event e w) = debugFunctions w"
  by (simp add: log_event_def)

lemma trace_log_event [simp]: "trace (log_event e w) = trace w @ [e]"
  by (simp add: log_event_def)

lemma arg_simps [simp]:
  "arg [] i = undefined_val"
  "arg (x # xs) 0 = x"
  "arg (x # xs) (Suc i) = arg xs i"
  by (simp_all add: arg_def)

lemma arg_1 [simp]: "arg (x # xs) 1 = arg xs 0"
  by (simp add: arg_def)

lemma arg_2 [simp]: "arg (x # xs) 2 = arg xs 1"
  by (simp add: arg_def numeral_2_eq_2)

lemma sublist_after_prefix: "sublist desc (p @ desc)"
  by (rule suffix_imp_sublist) (simp add: suffix_def)

text \<open>A call that returns within some depth returns the same at any greater depth.\<close>

lemma call_mono:
  "call h n f this args w = Some r \<Longrightarrow> call h (Suc n) f this args w = Some r"
proof (induction n arbitrary: f this args w r)
  case 0
  then show ?case by simp
next
  case (Suc n)
  define k where "k = Suc n"
  have IH: "\<And>f this args w r. call h n f this args w = Some r \<Longrightarrow> call h k f this args w = Some r"
    using Suc.IH by (simp add: k_def)
  from Suc.prems have P: "call h (Suc n) f this args w = Some r" .
  have "call h (Suc k) f this args w = Some r"
    using P by (cases f) (auto split: option.splits sum.splits val.splits prod.splits if_splits
        simp: IH)
  then show ?case by (simp add: k_def)
qed

lemma call_mono_le:
  assumes "call h n f this args w = Some r" and "n \<le> m"
  shows "call h m f this args w = Some r"
  using assms(2) assms(1)
  by (induction rule: dec_induct) (auto intro: call_mono)

subsection \<open>The registry after loading\<close>

lemma install_registry:
  "debugFunctions (install_implementations w)
     = (debugFunctions w)
         (''assert'' \<mapsto> Fun assert_impl, ''debug'' \<mapsto> Fun debug_impl, ''info'' \<mapsto> Fun info_impl,
          ''deprecateFunc'' \<mapsto> Fun deprecateFunc_impl, ''runInDebug'' \<mapsto> Fun runInDebug_impl,
          ''debugSeal'' \<mapsto> Fun debugSeal_impl, ''debugFreeze'' \<mapsto> Fun debugFreeze_impl,
          ''deprecate'' \<mapsto> Fun deprecate_handler, ''warn'' \<mapsto> Fun warn_handler)"
  by (simp add: install_implementations_def install_def development_implementations_def
      setDebugFunction_def)

lemma install_frame [simp]:
  "objects (install_implementations w) = objects w"
  "isTesting (install_implementations w) = isTesting w"
  by (simp_all add: install_implementations_def install_def development_implementations_def
      setDebugFunction_def)

lemmas world_defs = development_world_def install_implementations_def install_def
  development_implementations_def setDebugFunction_def example_world_def

lemma development_registry:
  "debugFunctions development_world ''assert'' = Some (Fun assert_impl)"
  "debugFunctions development_world ''deprecateFunc'' = Some (Fun deprecateFunc_impl)"
  "debugFunctions development_world ''deprecate'' = Some (Fun deprecate_handler)"
  "debugFunctions development_world ''warn'' = Some (Fun warn_handler)"
  by (simp_all add: world_defs)

subsection \<open>The development warning path\<close>

lemma flag_message_inject [simp]: "flag_message a = flag_message b \<longleftrightarrow> a = b"
  by (simp add: flag_message_def)

lemma flag_warning_inject [simp]: "flag_warning a = flag_warning b \<longleftrightarrow> a = b"
  by (simp add: flag_warning_def)

lemma flag_warning_not_switch [simp]: "flag_warning a \<noteq> switch_warning"
  by (simp add: flag_warning_def switch_warning_def flag_message_def switch_message_def)

lemma warn_development:
  assumes "debugFunctions w ''warn'' = Some (Fun warn_handler)"
  shows "call h (Suc (Suc n)) warn this [m, Prim (Bool t), opts] w
           = Some (Inr undefined_val, if t then w else log_event (Warning m opts) w)"
  using assms by (simp add: run_warn_handler_def)

text \<open>
  The loop over an object's keys, with the development \<^verbatim>\<open>warn\<close> registered:
  it reports the known, truthy keys in order and changes nothing else.
\<close>

lemma flag_loop_development:
  assumes "debugFunctions w ''warn'' = Some (Fun warn_handler)"
  shows "flag_loop h (Suc (Suc n)) (Obj flags) (Obj known) keys w
           = Some (Inr undefined_val,
                   w\<lparr>trace := trace w @ map flag_warning
                      (filter (\<lambda>key. key \<noteq> ''isEnabled'' \<and> object_has h key known \<and>
                          (case map_of flags key of None \<Rightarrow> False | Some v \<Rightarrow> truthy (Prim v)))
                        keys)\<rparr>)"
  using assms
proof (induction keys arbitrary: w)
  case Nil
  then show ?case by simp
next
  case (Cons key keys)
  note dev = Cons.prems
  have dev': "debugFunctions (log_event e w) ''warn'' = Some (Fun warn_handler)" for e
    using dev by simp
  show ?case
  proof (cases "key \<noteq> ''isEnabled'' \<and> object_has h key known")
    case False
    then show ?thesis
      using Cons.IH [OF dev] by auto
  next
    case True
    show ?thesis
    proof (cases "case map_of flags key of None \<Rightarrow> False | Some v \<Rightarrow> truthy (Prim v)")
      case True
      with \<open>key \<noteq> ''isEnabled'' \<and> object_has h key known\<close> show ?thesis
        using warn_development [OF dev, of h n] Cons.IH [OF dev']
        by (auto simp: flag_warning_def log_event_def split: option.splits)
    next
      case False
      with \<open>key \<noteq> ''isEnabled'' \<and> object_has h key known\<close> show ?thesis
        using warn_development [OF dev, of h n] Cons.IH [OF dev]
        by (auto simp: flag_warning_def split: option.splits)
    qed
  qed
qed

subsection \<open>Loading the module completes\<close>

lemma get_property_truthy:
  assumes "truthy F"
  shows "\<exists>v. get_property F key = Inr v"
  using assms by (cases F rule: truthy.cases) simp_all

lemma Object_keys_truthy:
  assumes "truthy F"
  shows "\<exists>keys. Object_keys F = Inr keys"
  using assms by (cases F rule: truthy.cases) simp_all

lemma flag_loop_returns:
  assumes "debugFunctions w ''warn'' = Some (Fun warn_handler)"
      and "truthy F \<or> keys = []"
  shows "\<exists>evs. flag_loop h (Suc (Suc n)) F (Obj known) keys w
                 = Some (Inr undefined_val, w\<lparr>trace := trace w @ evs\<rparr>)"
  using assms
proof (induction keys arbitrary: w)
  case Nil
  have "flag_loop h (Suc (Suc n)) F (Obj known) [] w
          = Some (Inr undefined_val, w\<lparr>trace := trace w @ []\<rparr>)"
    by simp
  then show ?case by blast
next
  case (Cons key keys)
  then have F: "truthy F" by simp
  note dev = Cons.prems(1)
  obtain v where v: "get_property F key = Inr v"
    using get_property_truthy [OF F] by blast
  let ?e = "Warning (Prim (Str (flag_message key))) stripped_options"
  let ?w1 = "w\<lparr>trace := trace w @ [?e]\<rparr>"
  have dev1: "debugFunctions ?w1 ''warn'' = Some (Fun warn_handler)"
    using dev by simp
  from Cons.IH [OF dev] F obtain evs0 where
    same: "flag_loop h (Suc (Suc n)) F (Obj known) keys w
             = Some (Inr undefined_val, w\<lparr>trace := trace w @ evs0\<rparr>)"
    by blast
  from Cons.IH [OF dev1] F obtain evs1 where
    "flag_loop h (Suc (Suc n)) F (Obj known) keys ?w1
       = Some (Inr undefined_val, ?w1\<lparr>trace := trace ?w1 @ evs1\<rparr>)"
    by blast
  then have more: "flag_loop h (Suc (Suc n)) F (Obj known) keys ?w1
                     = Some (Inr undefined_val, w\<lparr>trace := trace w @ ?e # evs1\<rparr>)"
    by simp
  have "flag_loop h (Suc (Suc n)) F (Obj known) (key # keys) w
          = Some (Inr undefined_val, w\<lparr>trace := trace w @ evs0\<rparr>) \<or>
        flag_loop h (Suc (Suc n)) F (Obj known) (key # keys) w
          = Some (Inr undefined_val, w\<lparr>trace := trace w @ ?e # evs1\<rparr>)"
    using same more v dev
    by (cases "object_has h key known"; cases "truthy (Prim v)")
       (auto simp: log_event_def run_warn_handler_def)
  then show ?case by blast
qed

lemma warnIfUsingStrippedFeatureFlags_returns:
  assumes "debugFunctions w ''warn'' = Some (Fun warn_handler)"
  shows "\<exists>evs. warnIfUsingStrippedFeatureFlags h (Suc (Suc n)) F (Obj known) s w
                 = Some (Inr undefined_val, w\<lparr>trace := trace w @ evs\<rparr>)"
proof (cases "truthy s")
  case False
  then have "warnIfUsingStrippedFeatureFlags h (Suc (Suc n)) F (Obj known) s w
               = Some (Inr undefined_val, w\<lparr>trace := trace w @ []\<rparr>)"
    by (simp add: warnIfUsingStrippedFeatureFlags_def)
  then show ?thesis by blast
next
  case True
  let ?sw = "if truthy (ENV_ENABLE_OPTIONAL_FEATURES w) then [switch_warning] else []"
  let ?w1 = "w\<lparr>trace := trace w @ ?sw\<rparr>"
  let ?F = "if truthy F then F else Obj []"
  have first: "call h (Suc (Suc n)) warn undefined_val
                 [Prim (Str switch_message),
                  Prim (Bool (\<not> truthy (ENV_ENABLE_OPTIONAL_FEATURES w))), stripped_options] w
               = Some (Inr undefined_val, ?w1)"
    using warn_development [OF assms, of h n]
    by (simp add: switch_warning_def log_event_def)
  have dev1: "debugFunctions ?w1 ''warn'' = Some (Fun warn_handler)"
    using assms by simp
  have "truthy ?F" by simp
  then obtain keys where keys: "Object_keys ?F = Inr keys"
    using Object_keys_truthy by blast
  have "truthy F \<or> keys = []"
    using keys by (cases "truthy F") auto
  from flag_loop_returns [OF dev1 this, of h n known] obtain evs where
    "flag_loop h (Suc (Suc n)) F (Obj known) keys ?w1
       = Some (Inr undefined_val, ?w1\<lparr>trace := trace ?w1 @ evs\<rparr>)"
    by blast
  then have "flag_loop h (Suc (Suc n)) F (Obj known) keys ?w1
               = Some (Inr undefined_val, w\<lparr>trace := trace w @ ?sw @ evs\<rparr>)"
    by simp
  with True first keys
  have "warnIfUsingStrippedFeatureFlags h (Suc (Suc n)) F (Obj known) s w
          = Some (Inr undefined_val, w\<lparr>trace := trace w @ ?sw @ evs\<rparr>)"
    unfolding warnIfUsingStrippedFeatureFlags_def by simp
  then show ?thesis by blast
qed

text \<open>
  With the development implementations the module body runs to its end: it
  leaves them registered, and of the flag objects it has changed at most
  \<^verbatim>\<open>FEATURES\<close>, by the probe.
\<close>

lemma module_init_completes:
  "\<exists>w'. module_init h (Suc (Suc n)) w0 = Some (Inr undefined_val, w') \<and>
        debugFunctions w'
          = debugFunctions (install_implementations (w0\<lparr>debugFunctions := debugFunctions_initial\<rparr>)) \<and>
        objects w'
          = (if isTesting w0 then objects w0
             else objects (remove_canary h (install_canary h w0)))"
proof -
  let ?w = "install_implementations (w0\<lparr>debugFunctions := debugFunctions_initial\<rparr>)"
  show ?thesis
  proof (cases "isTesting w0")
    case True
    then show ?thesis
      by (simp add: module_init_def nonEmberDebugJS_check_def runningNonEmberDebugJS_def)
  next
    case False
    obtain s w1 where p: "features_stripped_probe h ?w = (s, w1)"
      by (cases "features_stripped_probe h ?w")
    then have reg: "debugFunctions w1 = debugFunctions ?w"
      by (auto simp: features_stripped_probe_def install_canary_def remove_canary_def Let_def)
    from p have obj: "objects w1 = objects (remove_canary h (install_canary h w0))"
      by (auto simp: features_stripped_probe_def install_canary_def remove_canary_def Let_def)
    from reg have dev: "debugFunctions w1 ''warn'' = Some (Fun warn_handler)"
      by (simp add: install_registry)
    from warnIfUsingStrippedFeatureFlags_returns [OF dev] obtain evs where
      "warnIfUsingStrippedFeatureFlags h (Suc (Suc n)) (ENV_FEATURES w1)
         (Obj (objects w1 (DEFAULT_FEATURES_ref h))) (Prim (Bool s)) w1
       = Some (Inr undefined_val, w1\<lparr>trace := trace w1 @ evs\<rparr>)"
      by blast
    with False p reg obj show ?thesis
      by (simp add: module_init_def nonEmberDebugJS_check_def runningNonEmberDebugJS_def
          inspector_setup_def log_event_def)
  qed
qed

section \<open>The claims\<close>

text \<open>
  C1. With the development \<^verbatim>\<open>assert\<close> registered, calling the entry point
  \<^verbatim>\<open>assert(desc, test)\<close> with a description string and a truthy test returns
  and leaves the state as it was; with a falsy (or missing) test it throws an
  error whose message contains the description.
\<close>

theorem assert_checks_test:
  assumes "debugFunctions w ''assert'' = Some (Fun assert_impl)"
      and "arg args 0 = Prim (Str desc)"
  shows "(truthy (arg args 1) \<longrightarrow>
            call h (Suc (Suc n)) assert this args w = Some (Inr undefined_val, w)) \<and>
         (\<not> truthy (arg args 1) \<longrightarrow>
            (\<exists>e m. call h (Suc (Suc n)) assert this args w = Some (Inl e, w) \<and>
                    exn_message e = Some m \<and> sublist desc m))"
proof (intro conjI impI)
  assume "truthy (arg args 1)"
  with assms show "call h (Suc (Suc n)) assert this args w = Some (Inr undefined_val, w)"
    by simp
next
  assume "\<not> truthy (arg args 1)"
  with assms have "call h (Suc (Suc n)) assert this args w
                     = Some (Inl (EmberError (''Assertion Failed: '' @ desc)), w)"
    by simp
  moreover have "exn_message (EmberError (''Assertion Failed: '' @ desc))
                   = Some (''Assertion Failed: '' @ desc)"
    by simp
  moreover have "sublist desc (''Assertion Failed: '' @ desc)"
    by (rule sublist_after_prefix)
  ultimately show "\<exists>e m. call h (Suc (Suc n)) assert this args w = Some (Inl e, w) \<and>
                          exn_message e = Some m \<and> sublist desc m"
    by blast
qed

theorem assert_checks_test_witness:
  "debugFunctions development_world ''assert'' = Some (Fun assert_impl) \<and>
   call example_host (Suc (Suc 0)) assert undefined_val
       [Prim (Str ''x''), Prim (Bool True)] development_world
     = Some (Inr undefined_val, development_world) \<and>
   (\<exists>e m. call example_host (Suc (Suc 0)) assert undefined_val
             [Prim (Str ''x''), Prim (Bool False)] development_world
             = Some (Inl e, development_world) \<and>
          exn_message e = Some m \<and> sublist ''x'' m)"
proof -
  note d = development_registry(1)
  have a: "arg [Prim (Str ''x''), b] 0 = Prim (Str ''x'')" for b
    by simp
  have t: "truthy (arg [Prim (Str ''x''), Prim (Bool True)] 1)"
    and f: "\<not> truthy (arg [Prim (Str ''x''), Prim (Bool False)] 1)"
    by simp_all
  from assert_checks_test [OF d a, of "Prim (Bool True)" example_host 0 undefined_val] t
       assert_checks_test [OF d a, of "Prim (Bool False)" example_host 0 undefined_val] f
       d
  show ?thesis
    by blast
qed

text \<open>
  C2. With the development \<^verbatim>\<open>deprecateFunc\<close> registered,
  \<^verbatim>\<open>deprecateFunc(msg, fn)\<close> returns a wrapper and changes nothing. Calling the
  wrapper where the development \<^verbatim>\<open>deprecate\<close> is registered raises exactly one
  deprecation, with \<^verbatim>\<open>msg\<close>, and then is the call of \<^verbatim>\<open>fn\<close> with the
  wrapper's own \<^verbatim>\<open>this\<close> and arguments: same result, same effects, and no
  return where \<^verbatim>\<open>fn\<close> does not return.
\<close>

theorem deprecateFunc_wraps:
  assumes "debugFunctions w ''deprecateFunc'' = Some (Fun deprecateFunc_impl)"
      and "debugFunctions w' ''deprecate'' = Some (Fun deprecate_handler)"
  shows "call h (Suc (Suc n)) deprecateFunc this0 [msg, Fun f] w
           = Some (Inr (Fun (deprecateFunc_wrapper2 msg (Fun f))), w) \<and>
         call h (Suc (Suc (Suc m))) (deprecateFunc_wrapper2 msg (Fun f)) this args w'
           = call h (Suc (Suc m)) f this args (log_event (Deprecation msg undefined_val) w')"
  using assms by (simp add: run_deprecate_handler_def)

theorem deprecateFunc_wraps_witness:
  "debugFunctions development_world ''deprecateFunc'' = Some (Fun deprecateFunc_impl) \<and>
   debugFunctions development_world ''deprecate'' = Some (Fun deprecate_handler) \<and>
   call example_host (Suc (Suc 0)) deprecateFunc undefined_val
       [Prim (Str ''old''), Fun (UserFn 0)] development_world
     = Some (Inr (Fun (deprecateFunc_wrapper2 (Prim (Str ''old'')) (Fun (UserFn 0)))),
             development_world) \<and>
   call example_host (Suc (Suc (Suc 0)))
       (deprecateFunc_wrapper2 (Prim (Str ''old'')) (Fun (UserFn 0)))
       (Prim (Num 7)) [Prim (Num 1)] development_world
     = Some (Inr (Prim (Num 7)),
             development_world\<lparr>trace := [Deprecation (Prim (Str ''old'')) undefined_val,
                                          Logger_info [Prim (Num 1)]]\<rparr>)"
proof -
  have run: "call example_host (Suc (Suc 0)) (UserFn 0) (Prim (Num 7)) [Prim (Num 1)]
               (log_event (Deprecation (Prim (Str ''old'')) undefined_val) development_world)
             = Some (Inr (Prim (Num 7)),
                 development_world\<lparr>trace := [Deprecation (Prim (Str ''old'')) undefined_val,
                                              Logger_info [Prim (Num 1)]]\<rparr>)"
    by (simp add: example_host_def log_event_def world_defs)
  from deprecateFunc_wraps [OF development_registry(2) development_registry(3),
      of example_host 0 undefined_val "Prim (Str ''old'')" "UserFn 0" 0 "Prim (Num 7)"
         "[Prim (Num 1)]"]
  show ?thesis
    by (simp only: run development_registry simp_thms)
qed

text \<open>
  C3. With the development \<^verbatim>\<open>warn\<close> registered and
  \<^verbatim>\<open>featuresWereStripped\<close> truthy, the check returns, and what it adds to the
  trace is the warning about \<^verbatim>\<open>ENV.ENABLE_OPTIONAL_FEATURES\<close> when that switch
  is on, followed by one warning for each reported flag, in the order of the keys.
  So for every key of the active flags that is a member of the known feature
  names (its own or an inherited one, as \<^verbatim>\<open>in\<close> finds it) and not
  \<^verbatim>\<open>isEnabled\<close>, its warning is raised if and only if its value is truthy;
  a key that is not a member, and \<^verbatim>\<open>isEnabled\<close>, raise none.
\<close>

theorem stripped_flags_reported:
  assumes "debugFunctions w ''warn'' = Some (Fun warn_handler)"
      and "truthy featuresWereStripped"
  shows "\<exists>evs. warnIfUsingStrippedFeatureFlags h (Suc (Suc n)) (Obj flags) (Obj known)
                  featuresWereStripped w
                = Some (Inr undefined_val, w\<lparr>trace := trace w @ evs\<rparr>) \<and>
               evs = (if truthy (ENV_ENABLE_OPTIONAL_FEATURES w) then [switch_warning] else [])
                       @ map flag_warning (reported_flags h flags known) \<and>
               (\<forall>key v. map_of flags key = Some v \<and> key \<noteq> ''isEnabled'' \<and>
                         (key \<in> fst ` set known \<or> key \<in> set (Object_prototype h))
                    \<longrightarrow> (flag_warning key \<in> set evs \<longleftrightarrow> truthy (Prim v))) \<and>
               (\<forall>key. flag_warning key \<in> set evs
                    \<longrightarrow> key \<noteq> ''isEnabled'' \<and> key \<in> fst ` set flags \<and>
                        (key \<in> fst ` set known \<or> key \<in> set (Object_prototype h)))"
proof -
  let ?sw = "if truthy (ENV_ENABLE_OPTIONAL_FEATURES w) then [switch_warning] else []"
  let ?w1 = "w\<lparr>trace := trace w @ ?sw\<rparr>"
  let ?evs = "?sw @ map flag_warning (reported_flags h flags known)"
  have first: "call h (Suc (Suc n)) warn undefined_val
                 [Prim (Str switch_message),
                  Prim (Bool (\<not> truthy (ENV_ENABLE_OPTIONAL_FEATURES w))), stripped_options] w
               = Some (Inr undefined_val, ?w1)"
    using warn_development [OF assms(1), of h n]
    by (simp add: switch_warning_def log_event_def)
  have dev1: "debugFunctions ?w1 ''warn'' = Some (Fun warn_handler)"
    using assms(1) by simp
  have run: "warnIfUsingStrippedFeatureFlags h (Suc (Suc n)) (Obj flags) (Obj known)
               featuresWereStripped w
             = Some (Inr undefined_val, w\<lparr>trace := trace w @ ?evs\<rparr>)"
    unfolding warnIfUsingStrippedFeatureFlags_def reported_flags_def
    using assms(2) first flag_loop_development [OF dev1, of h n flags known "map fst flags"]
    by simp
  have member: "flag_warning key \<in> set ?evs \<longleftrightarrow> key \<in> set (reported_flags h flags known)"
    for key
    by auto
  have iff: "flag_warning key \<in> set ?evs \<longleftrightarrow> truthy (Prim v)"
    if "map_of flags key = Some v" "key \<noteq> ''isEnabled''"
       "key \<in> fst ` set known \<or> key \<in> set (Object_prototype h)" for key v
  proof -
    from that(1) have "key \<in> set (map fst flags)"
      by (metis map_of_eq_None_iff option.distinct(1) set_map)
    with that show ?thesis
      unfolding member by (auto simp: reported_flags_def object_has_def)
  qed
  have only: "key \<noteq> ''isEnabled'' \<and> key \<in> fst ` set flags \<and>
              (key \<in> fst ` set known \<or> key \<in> set (Object_prototype h))"
    if "flag_warning key \<in> set ?evs" for key
    using that unfolding member by (auto simp: reported_flags_def object_has_def)
  from run iff only show ?thesis by blast
qed

theorem stripped_flags_reported_witness:
  "debugFunctions development_world ''warn'' = Some (Fun warn_handler) \<and>
   truthy (Prim (Bool True)) \<and>
   warnIfUsingStrippedFeatureFlags example_host (Suc (Suc 0))
       (Obj [(''a'', Bool True), (''b'', Bool False)])
       (Obj [(''a'', Bool True), (''b'', Bool True)])
       (Prim (Bool True)) development_world
     = Some (Inr undefined_val, development_world\<lparr>trace := [flag_warning ''a'']\<rparr>) \<and>
   flag_warning ''a'' \<in> set [flag_warning ''a''] \<and>
   flag_warning ''b'' \<notin> set [flag_warning ''a''] \<and>
   warnIfUsingStrippedFeatureFlags example_host (Suc (Suc 0))
       (Obj [(''toString'', Bool True), (''a'', Bool True), (''zz'', Bool True)])
       (Obj [(''a'', Bool True)])
       (Prim (Bool True)) development_world
     = Some (Inr undefined_val,
             development_world\<lparr>trace := [flag_warning ''toString'', flag_warning ''a'']\<rparr>)"
proof -
  have t: "truthy (Prim (Bool True))"
    by simp
  have env: "\<not> truthy (ENV_ENABLE_OPTIONAL_FEATURES development_world)"
    by (simp add: world_defs)
  have tr: "trace development_world = []"
    by (simp add: world_defs)
  have rep: "reported_flags example_host [(''a'', Bool True), (''b'', Bool False)]
               [(''a'', Bool True), (''b'', Bool True)] = [''a'']"
    by (simp add: reported_flags_def object_has_def example_host_def)
  have rep': "reported_flags example_host
                [(''toString'', Bool True), (''a'', Bool True), (''zz'', Bool True)]
                [(''a'', Bool True)] = [''toString'', ''a'']"
    by (simp add: reported_flags_def object_has_def example_host_def)
  from stripped_flags_reported [OF development_registry(4) t, of example_host 0
      "[(''a'', Bool True), (''b'', Bool False)]" "[(''a'', Bool True), (''b'', Bool True)]"]
  obtain evs where
    run: "warnIfUsingStrippedFeatureFlags example_host (Suc (Suc 0))
            (Obj [(''a'', Bool True), (''b'', Bool False)])
            (Obj [(''a'', Bool True), (''b'', Bool True)])
            (Prim (Bool True)) development_world
          = Some (Inr undefined_val,
                  development_world\<lparr>trace := trace development_world @ evs\<rparr>)"
    and evs: "evs = (if truthy (ENV_ENABLE_OPTIONAL_FEATURES development_world)
                     then [switch_warning] else [])
                    @ map flag_warning (reported_flags example_host
                        [(''a'', Bool True), (''b'', Bool False)]
                        [(''a'', Bool True), (''b'', Bool True)])"
    and iff: "\<forall>key v. map_of [(''a'', Bool True), (''b'', Bool False)] key = Some v \<and>
                key \<noteq> ''isEnabled'' \<and>
                (key \<in> fst ` set [(''a'', Bool True), (''b'', Bool True)] \<or>
                 key \<in> set (Object_prototype example_host))
              \<longrightarrow> (flag_warning key \<in> set evs \<longleftrightarrow> truthy (Prim v))"
    by blast
  from evs env rep have evs': "evs = [flag_warning ''a'']"
    by simp
  from iff have a: "flag_warning ''a'' \<in> set evs \<longleftrightarrow> truthy (Prim (Bool True))"
    by simp
  from iff have b: "flag_warning ''b'' \<in> set evs \<longleftrightarrow> truthy (Prim (Bool False))"
    by simp
  from stripped_flags_reported [OF development_registry(4) t, of example_host 0
      "[(''toString'', Bool True), (''a'', Bool True), (''zz'', Bool True)]"
      "[(''a'', Bool True)]"]
  obtain evs2 where
    run2: "warnIfUsingStrippedFeatureFlags example_host (Suc (Suc 0))
            (Obj [(''toString'', Bool True), (''a'', Bool True), (''zz'', Bool True)])
            (Obj [(''a'', Bool True)])
            (Prim (Bool True)) development_world
          = Some (Inr undefined_val,
                  development_world\<lparr>trace := trace development_world @ evs2\<rparr>)"
    and evs2: "evs2 = (if truthy (ENV_ENABLE_OPTIONAL_FEATURES development_world)
                     then [switch_warning] else [])
                    @ map flag_warning (reported_flags example_host
                        [(''toString'', Bool True), (''a'', Bool True), (''zz'', Bool True)]
                        [(''a'', Bool True)])"
    by blast
  from evs2 env rep' have evs2': "evs2 = [flag_warning ''toString'', flag_warning ''a'']"
    by simp
  from a b show ?thesis
    using run evs' run2 evs2' tr development_registry(4) by simp
qed

text \<open>
  C4. After \<^verbatim>\<open>setDebugFunction(name, fn)\<close>, \<^verbatim>\<open>getDebugFunction(name)\<close> is
  \<^verbatim>\<open>fn\<close>. After \<^verbatim>\<open>setDebugFunction('warn', customFn)\<close> a call of the entry
  point \<^verbatim>\<open>warn\<close> is the call of \<^verbatim>\<open>customFn\<close> with the same arguments (and
  \<^verbatim>\<open>this\<close> undefined), and of nothing else; for a function of the application
  that is its behaviour, whatever was registered before.
\<close>

theorem register_then_invoke:
  "getDebugFunction name (setDebugFunction name fn w) = fn \<and>
   call h (Suc n) warn this args (setDebugFunction ''warn'' (Fun customFn) w)
     = call h n customFn undefined_val args (setDebugFunction ''warn'' (Fun customFn) w) \<and>
   call h (Suc (Suc n)) warn this args (setDebugFunction ''warn'' (Fun (UserFn k)) w)
     = user h k undefined_val args (setDebugFunction ''warn'' (Fun (UserFn k)) w)"
  by (simp add: getDebugFunction_def setDebugFunction_def)

text \<open>
  C5. While the registry holds its initial entries, \<^verbatim>\<open>assert\<close> returns without
  failing and without effect whatever its arguments, and \<^verbatim>\<open>deprecateFunc\<close>
  returns the target function itself, with or without an options argument; no
  wrapper exists, so calling the result is calling the target.
\<close>

theorem noop_configuration:
  assumes "debugFunctions w = debugFunctions_initial"
  shows "call h (Suc (Suc n)) assert this args w = Some (Inr undefined_val, w) \<and>
         call h (Suc (Suc n)) deprecateFunc this [msg, fn] w = Some (Inr fn, w) \<and>
         call h (Suc (Suc n)) deprecateFunc this [msg, options, fn] w = Some (Inr fn, w)"
  using assms by (simp add: debugFunctions_initial_def)

theorem noop_configuration_witness:
  "debugFunctions example_world = debugFunctions_initial \<and>
   call example_host (Suc (Suc 0)) assert undefined_val
       [Prim (Str ''never''), Prim (Bool False)] example_world
     = Some (Inr undefined_val, example_world) \<and>
   call example_host (Suc (Suc 0)) deprecateFunc undefined_val
       [Prim (Str ''old''), Fun (UserFn 0)] example_world
     = Some (Inr (Fun (UserFn 0)), example_world)"
proof -
  have init: "debugFunctions example_world = debugFunctions_initial"
    by (simp add: example_world_def)
  from noop_configuration [OF init] init show ?thesis
    by blast
qed

text \<open>
  C6. With a falsy \<^verbatim>\<open>featuresWereStripped\<close> the check returns at once,
  whatever the flags, the known names, the registry and the depth allowed: the
  state, and with it the trace, is unchanged.
\<close>

theorem warn_flags_off:
  assumes "\<not> truthy featuresWereStripped"
  shows "warnIfUsingStrippedFeatureFlags h n FEATURES knownFeatures featuresWereStripped w
           = Some (Inr undefined_val, w)"
  using assms by (simp add: warnIfUsingStrippedFeatureFlags_def)

theorem warn_flags_off_witness:
  "\<not> truthy (Prim (Bool False)) \<and>
   warnIfUsingStrippedFeatureFlags example_host (Suc (Suc 0))
       (Obj [(''a'', Bool True), (''b'', Bool False)])
       (Obj [(''a'', Bool True), (''b'', Bool True)])
       (Prim (Bool False)) development_world
     = Some (Inr undefined_val, development_world)"
proof -
  have f: "\<not> truthy (Prim (Bool False))"
    by simp
  from warn_flags_off [OF f] f show ?thesis
    by blast
qed

text \<open>
  C7. The probe sets the canary flag to \<^verbatim>\<open>true\<close> in \<^verbatim>\<open>FEATURES\<close>, asks
  \<^verbatim>\<open>isFeatureEnabled\<close> for it in that state, and deletes it: the flags are
  judged stripped exactly when the query was not truthy; afterwards
  \<^verbatim>\<open>FEATURES\<close> has no canary entry and its other entries are as before, and
  nothing but \<^verbatim>\<open>FEATURES\<close> has changed.
\<close>

theorem canary_probe:
  "map_of (objects (install_canary h w) (FEATURES_ref h)) canary = Some (Bool True) \<and>
   fst (features_stripped_probe h w)
     = (\<not> truthy (isFeatureEnabled h canary (install_canary h w))) \<and>
   snd (features_stripped_probe h w) = remove_canary h (install_canary h w) \<and>
   canary \<notin> fst ` set (objects (snd (features_stripped_probe h w)) (FEATURES_ref h)) \<and>
   map_of (objects (snd (features_stripped_probe h w)) (FEATURES_ref h))
     = (map_of (objects w (FEATURES_ref h)))(canary := None) \<and>
   (snd (features_stripped_probe h w))
      \<lparr>objects := (objects (snd (features_stripped_probe h w)))
                    (FEATURES_ref h := objects w (FEATURES_ref h))\<rparr> = w"
  by (simp add: features_stripped_probe_def install_canary_def remove_canary_def Let_def
      AList.update_conv' AList.delete_conv' AList.delete_notin_dom)

text \<open>
  C8. Each of the nine entry points reads the registry under its own name when
  it is called. Where a function of the application is registered there, the call
  of the entry point is that function's run on all the arguments (with
  \<^verbatim>\<open>this\<close> undefined) in the state of the call: its result, its exception, its
  effects, or no return, are the entry point's. In general the entry point is the
  specification's \<^verbatim>\<open>invoke\<close> at its name.
\<close>

theorem entry_points_forward:
  "(debugFunctions w ''assert'' = Some (Fun (UserFn k)) \<longrightarrow>
      call h (Suc (Suc n)) assert this args w = user h k undefined_val args w) \<and>
   (debugFunctions w ''info'' = Some (Fun (UserFn k)) \<longrightarrow>
      call h (Suc (Suc n)) info this args w = user h k undefined_val args w) \<and>
   (debugFunctions w ''warn'' = Some (Fun (UserFn k)) \<longrightarrow>
      call h (Suc (Suc n)) warn this args w = user h k undefined_val args w) \<and>
   (debugFunctions w ''debug'' = Some (Fun (UserFn k)) \<longrightarrow>
      call h (Suc (Suc n)) debug this args w = user h k undefined_val args w) \<and>
   (debugFunctions w ''deprecate'' = Some (Fun (UserFn k)) \<longrightarrow>
      call h (Suc (Suc n)) deprecate this args w = user h k undefined_val args w) \<and>
   (debugFunctions w ''deprecateFunc'' = Some (Fun (UserFn k)) \<longrightarrow>
      call h (Suc (Suc n)) deprecateFunc this args w = user h k undefined_val args w) \<and>
   (debugFunctions w ''runInDebug'' = Some (Fun (UserFn k)) \<longrightarrow>
      call h (Suc (Suc n)) runInDebug this args w = user h k undefined_val args w) \<and>
   (debugFunctions w ''debugSeal'' = Some (Fun (UserFn k)) \<longrightarrow>
      call h (Suc (Suc n)) debugSeal this args w = user h k undefined_val args w) \<and>
   (debugFunctions w ''debugFreeze'' = Some (Fun (UserFn k)) \<longrightarrow>
      call h (Suc (Suc n)) debugFreeze this args w = user h k undefined_val args w) \<and>
   call h (Suc n) assert this args w = invoke h n ''assert'' args w \<and>
   call h (Suc n) info this args w = invoke h n ''info'' args w \<and>
   call h (Suc n) warn this args w = invoke h n ''warn'' args w \<and>
   call h (Suc n) debug this args w = invoke h n ''debug'' args w \<and>
   call h (Suc n) deprecate this args w = invoke h n ''deprecate'' args w \<and>
   call h (Suc n) deprecateFunc this args w = invoke h n ''deprecateFunc'' args w \<and>
   call h (Suc n) runInDebug this args w = invoke h n ''runInDebug'' args w \<and>
   call h (Suc n) debugSeal this args w = invoke h n ''debugSeal'' args w \<and>
   call h (Suc n) debugFreeze this args w = invoke h n ''debugFreeze'' args w"
  by (simp add: invoke_def getDebugFunction_def split: option.split val.split prim.split)

theorem entry_points_forward_witness:
  "(\<forall>name. debugFunctions recording_world name = Some (Fun (UserFn 3))) \<and>
   call example_host (Suc (Suc 0)) assert (Prim (Num 7)) [Prim (Str ''m''), Prim (Num 1)]
       recording_world
     = Some (Inr undefined_val,
             recording_world\<lparr>trace := [Logger_info [Prim (Str ''m''), Prim (Num 1)]]\<rparr>) \<and>
   call example_host (Suc (Suc 0)) info (Prim (Num 7)) [Prim (Str ''m''), Prim (Num 1)]
       recording_world
     = Some (Inr undefined_val,
             recording_world\<lparr>trace := [Logger_info [Prim (Str ''m''), Prim (Num 1)]]\<rparr>) \<and>
   call example_host (Suc (Suc 0)) warn (Prim (Num 7)) [Prim (Str ''m''), Prim (Num 1)]
       recording_world
     = Some (Inr undefined_val,
             recording_world\<lparr>trace := [Logger_info [Prim (Str ''m''), Prim (Num 1)]]\<rparr>) \<and>
   call example_host (Suc (Suc 0)) debug (Prim (Num 7)) [Prim (Str ''m''), Prim (Num 1)]
       recording_world
     = Some (Inr undefined_val,
             recording_world\<lparr>trace := [Logger_info [Prim (Str ''m''), Prim (Num 1)]]\<rparr>) \<and>
   call example_host (Suc (Suc 0)) deprecate (Prim (Num 7)) [Prim (Str ''m''), Prim (Num 1)]
       recording_world
     = Some (Inr undefined_val,
             recording_world\<lparr>trace := [Logger_info [Prim (Str ''m''), Prim (Num 1)]]\<rparr>) \<and>
   call example_host (Suc (Suc 0)) deprecateFunc (Prim (Num 7)) [Prim (Str ''m''), Prim (Num 1)]
       recording_world
     = Some (Inr undefined_val,
             recording_world\<lparr>trace := [Logger_info [Prim (Str ''m''), Prim (Num 1)]]\<rparr>) \<and>
   call example_host (Suc (Suc 0)) runInDebug (Prim (Num 7)) [Prim (Str ''m''), Prim (Num 1)]
       recording_world
     = Some (Inr undefined_val,
             recording_world\<lparr>trace := [Logger_info [Prim (Str ''m''), Prim (Num 1)]]\<rparr>) \<and>
   call example_host (Suc (Suc 0)) debugSeal (Prim (Num 7)) [Prim (Str ''m''), Prim (Num 1)]
       recording_world
     = Some (Inr undefined_val,
             recording_world\<lparr>trace := [Logger_info [Prim (Str ''m''), Prim (Num 1)]]\<rparr>) \<and>
   call example_host (Suc (Suc 0)) debugFreeze (Prim (Num 7)) [Prim (Str ''m''), Prim (Num 1)]
       recording_world
     = Some (Inr undefined_val,
             recording_world\<lparr>trace := [Logger_info [Prim (Str ''m''), Prim (Num 1)]]\<rparr>)"
proof -
  have reg: "debugFunctions recording_world name = Some (Fun (UserFn 3))" for name
    by (simp add: recording_world_def)
  have run: "user example_host 3 undefined_val [Prim (Str ''m''), Prim (Num 1)] recording_world
             = Some (Inr undefined_val,
                 recording_world\<lparr>trace := [Logger_info [Prim (Str ''m''), Prim (Num 1)]]\<rparr>)"
    by (simp add: example_host_def log_event_def recording_world_def example_world_def)
  from entry_points_forward [of recording_world 3 example_host 0 "Prim (Num 7)"
      "[Prim (Str ''m''), Prim (Num 1)]"]
  show ?thesis
    by (simp only: reg run simp_thms)
qed

text \<open>
  C9. The initial registry has exactly the eight names, so
  \<^verbatim>\<open>getDebugFunction('runInDebug')\<close> is undefined and calling the entry point
  \<^verbatim>\<open>runInDebug\<close> is a type error. That is still so after the first four
  registrations of the module body; the fifth registers the development
  implementation, and once the module is loaded the entry point calls the
  function it is given, with no arguments, and returns undefined.
\<close>

theorem runInDebug_registered_on_load:
  "dom debugFunctions_initial
     = {''assert'', ''info'', ''warn'', ''debug'', ''deprecate'', ''deprecateFunc'',
        ''debugSeal'', ''debugFreeze''} \<and>
   getDebugFunction ''runInDebug'' (w\<lparr>debugFunctions := debugFunctions_initial\<rparr>)
     = undefined_val \<and>
   call h (Suc n) runInDebug this args (w\<lparr>debugFunctions := debugFunctions_initial\<rparr>)
     = Some (Inl TypeError, w\<lparr>debugFunctions := debugFunctions_initial\<rparr>) \<and>
   getDebugFunction ''runInDebug''
       (install (take 4 development_implementations) (w\<lparr>debugFunctions := debugFunctions_initial\<rparr>))
     = undefined_val \<and>
   getDebugFunction ''runInDebug''
       (install (take 5 development_implementations) (w\<lparr>debugFunctions := debugFunctions_initial\<rparr>))
     = Fun runInDebug_impl \<and>
   (\<exists>w'. module_init h (Suc (Suc n)) w = Some (Inr undefined_val, w') \<and>
         getDebugFunction ''runInDebug'' w' = Fun runInDebug_impl \<and>
         call h (Suc (Suc (Suc n))) runInDebug this [Fun (UserFn k)] w'
           = (case user h k undefined_val [] w' of
                None \<Rightarrow> None
              | Some (Inl e, w'') \<Rightarrow> Some (Inl e, w'')
              | Some (Inr r, w'') \<Rightarrow> Some (Inr undefined_val, w'')))"
proof -
  have before:
    "dom debugFunctions_initial
       = {''assert'', ''info'', ''warn'', ''debug'', ''deprecate'', ''deprecateFunc'',
          ''debugSeal'', ''debugFreeze''}"
    "getDebugFunction ''runInDebug'' (w\<lparr>debugFunctions := debugFunctions_initial\<rparr>)
       = undefined_val"
    "call h (Suc n) runInDebug this args (w\<lparr>debugFunctions := debugFunctions_initial\<rparr>)
       = Some (Inl TypeError, w\<lparr>debugFunctions := debugFunctions_initial\<rparr>)"
    by (simp_all add: debugFunctions_initial_def getDebugFunction_def insert_commute)
  have during:
    "getDebugFunction ''runInDebug''
         (install (take 4 development_implementations) (w\<lparr>debugFunctions := debugFunctions_initial\<rparr>))
       = undefined_val"
    "getDebugFunction ''runInDebug''
         (install (take 5 development_implementations) (w\<lparr>debugFunctions := debugFunctions_initial\<rparr>))
       = Fun runInDebug_impl"
    by (simp_all add: debugFunctions_initial_def getDebugFunction_def install_def
        development_implementations_def setDebugFunction_def)
  obtain w' where
    load: "module_init h (Suc (Suc n)) w = Some (Inr undefined_val, w')" and
    reg: "debugFunctions w'
            = debugFunctions (install_implementations (w\<lparr>debugFunctions := debugFunctions_initial\<rparr>))"
    using module_init_completes [of h n w] by blast
  from reg have r: "debugFunctions w' ''runInDebug'' = Some (Fun runInDebug_impl)"
    by (simp add: install_registry)
  then have after:
    "getDebugFunction ''runInDebug'' w' = Fun runInDebug_impl"
    "call h (Suc (Suc (Suc n))) runInDebug this [Fun (UserFn k)] w'
       = (case user h k undefined_val [] w' of
            None \<Rightarrow> None
          | Some (Inl e, w'') \<Rightarrow> Some (Inl e, w'')
          | Some (Inr r, w'') \<Rightarrow> Some (Inr undefined_val, w''))"
    by (simp_all add: getDebugFunction_def)
  from before during load after show ?thesis
    by blast
qed

text \<open>
  C10. The development \<^verbatim>\<open>deprecateFunc\<close> looks at the number of its arguments.
  With exactly three it returns a wrapper that calls \<^verbatim>\<open>deprecate\<close> with
  (message, false, options); with any other number it takes the first argument as
  the message and the second as the target, whatever follows, and its wrapper
  calls \<^verbatim>\<open>deprecate\<close> with the message alone. In both cases the registered
  implementation receives just these arguments, and the target runs next, with the
  wrapper's \<^verbatim>\<open>this\<close> and arguments, unless that call throws or does not
  return.
\<close>

theorem deprecateFunc_dispatch:
  assumes "debugFunctions w' ''deprecate'' = Some (Fun d)"
  shows "call h (Suc n) deprecateFunc_impl this0 [message, options, func] w
           = Some (Inr (Fun (deprecateFunc_wrapper3 message options func)), w) \<and>
         call h (Suc (Suc m)) (deprecateFunc_wrapper3 message options func) this args w'
           = (case call h m d undefined_val [message, Prim (Bool False), options] w' of
                None \<Rightarrow> None
              | Some (Inl e, w'') \<Rightarrow> Some (Inl e, w'')
              | Some (Inr r, w'') \<Rightarrow>
                  (case func of Fun g \<Rightarrow> call h (Suc m) g this args w''
                   | _ \<Rightarrow> Some (Inl TypeError, w''))) \<and>
         (length args0 \<noteq> 3 \<longrightarrow>
            call h (Suc n) deprecateFunc_impl this0 args0 w
              = Some (Inr (Fun (deprecateFunc_wrapper2 (arg args0 0) (arg args0 1))), w)) \<and>
         call h (Suc (Suc m)) (deprecateFunc_wrapper2 message func) this args w'
           = (case call h m d undefined_val [message] w' of
                None \<Rightarrow> None
              | Some (Inl e, w'') \<Rightarrow> Some (Inl e, w'')
              | Some (Inr r, w'') \<Rightarrow>
                  (case func of Fun g \<Rightarrow> call h (Suc m) g this args w''
                   | _ \<Rightarrow> Some (Inl TypeError, w'')))"
  using assms by simp

theorem deprecateFunc_dispatch_witness:
  "debugFunctions development_world ''deprecate'' = Some (Fun deprecate_handler) \<and>
   call example_host (Suc 0) deprecateFunc_impl undefined_val
       [Prim (Str ''old''), Obj [(''id'', Str ''x'')], Fun (UserFn 0)] development_world
     = Some (Inr (Fun (deprecateFunc_wrapper3 (Prim (Str ''old'')) (Obj [(''id'', Str ''x'')])
                        (Fun (UserFn 0)))), development_world) \<and>
   call example_host (Suc (Suc (Suc 0)))
       (deprecateFunc_wrapper3 (Prim (Str ''old'')) (Obj [(''id'', Str ''x'')]) (Fun (UserFn 0)))
       (Prim (Num 7)) [] development_world
     = Some (Inr (Prim (Num 7)),
             development_world\<lparr>trace := [Deprecation (Prim (Str ''old'')) (Obj [(''id'', Str ''x'')]),
                                          Logger_info []]\<rparr>) \<and>
   length [Prim (Str ''old''), Fun (UserFn 0), Prim (Num 1), Prim (Num 2)] \<noteq> 3 \<and>
   call example_host (Suc 0) deprecateFunc_impl undefined_val
       [Prim (Str ''old''), Fun (UserFn 0), Prim (Num 1), Prim (Num 2)] development_world
     = Some (Inr (Fun (deprecateFunc_wrapper2 (Prim (Str ''old'')) (Fun (UserFn 0)))),
             development_world) \<and>
   call example_host (Suc (Suc (Suc 0)))
       (deprecateFunc_wrapper2 (Prim (Str ''old'')) (Fun (UserFn 0)))
       (Prim (Num 7)) [] development_world
     = Some (Inr (Prim (Num 7)),
             development_world\<lparr>trace := [Deprecation (Prim (Str ''old'')) undefined_val,
                                          Logger_info []]\<rparr>)"
proof -
  have len: "length [Prim (Str ''old''), Fun (UserFn 0), Prim (Num 1), Prim (Num 2)] \<noteq> 3"
    by simp
  from deprecateFunc_dispatch [OF development_registry(3), of example_host 0 undefined_val
      "Prim (Str ''old'')" "Obj [(''id'', Str ''x'')]" "Fun (UserFn 0)" development_world
      "Suc 0" "Prim (Num 7)" "[]"
      "[Prim (Str ''old''), Fun (UserFn 0), Prim (Num 1), Prim (Num 2)]"]
  show ?thesis
    using len development_registry(3)
    by (simp add: run_deprecate_handler_def example_host_def log_event_def world_defs)
qed

end
